theory Spec2Isabelle
  imports Complex_Main "HOL-Library.AList"
begin

section \<open>Python values, exceptions and the two random sources\<close>

text \<open>
  The script \<^verbatim>\<open>generate_all_data.py\<close> is modelled function by function. Python floats
  are modelled as real numbers, Python ints as \<open>int\<close>, exceptions as values of the
  datatype \<open>error\<close>. Graph nodes are the labels networkx gives them: an integer, or a
  pair of integers for the two-dimensional lattices.
\<close>

datatype error =
    NameError string
  | ValueError string
  | ZeroDivisionError
  | IndexError
  | FileNotFoundError string
  | KeyError
  | UnpicklingError string
  | OSError string
  | NetworkXPointlessConcept
  | NetworkXError string

datatype node = NInt nat | NPair nat nat

record graph =
  nodes :: "node list"
  edges :: "(node \<times> node) list"

text \<open>\<^verbatim>\<open>Request(req_idx, t, orig, dest)\<close>: the four positional fields of a request.\<close>

record request =
  sequence_index :: int
  arrival_time :: real
  origin :: node
  destination :: node

text \<open>
  The script draws from two process-wide generators: Python's \<^verbatim>\<open>random\<close> module
  (\<^verbatim>\<open>random.sample\<close>) and NumPy's global generator (\<^verbatim>\<open>np.random.exponential\<close>).
  Each is a stream of raw draws; a draw consumes the head of its stream. \<open>py_random\<close>
  holds the integers behind \<^verbatim>\<open>randbelow\<close>, \<open>np_random\<close> the standard exponential
  variates (scale 1) that NumPy multiplies by the requested scale.
\<close>

record rng =
  py_random :: "nat \<Rightarrow> nat"
  np_random :: "nat \<Rightarrow> real"

definition randbelow :: "nat \<Rightarrow> rng \<Rightarrow> nat \<times> rng" where
  "randbelow n r = (py_random r 0 mod n, r\<lparr>py_random := (\<lambda>k. py_random r (Suc k))\<rparr>)"

text \<open>
  \<^verbatim>\<open>random.sample(population, k)\<close>: \<open>k\<close> elements at distinct positions, selected
  without replacement from a pool; position \<open>j\<close> is chosen among the remaining ones
  and the last remaining element takes its place. More than \<open>len(population)\<close>
  elements cannot be sampled.
\<close>

fun sample_pool :: "'a list \<Rightarrow> nat \<Rightarrow> rng \<Rightarrow> 'a list \<times> rng" where
  "sample_pool pool 0 r = ([], r)"
| "sample_pool pool (Suc k) r =
     (let (j, r1) = randbelow (length pool) r;
          (rest, r2) = sample_pool (butlast (pool[j := last pool])) k r1
      in (pool ! j # rest, r2))"

definition random_sample :: "'a list \<Rightarrow> nat \<Rightarrow> rng \<Rightarrow> error + ('a list \<times> rng)" where
  "random_sample population k r =
     (if k \<le> length population then Inr (sample_pool population k r)
      else Inl (ValueError ''Sample larger than population or is negative''))"

text \<open>
  \<^verbatim>\<open>np.random.exponential(scale)\<close>: a negative scale is rejected, otherwise the next
  standard exponential variate is multiplied by the scale.
\<close>

definition np_exponential :: "real \<Rightarrow> rng \<Rightarrow> error + (real \<times> rng)" where
  "np_exponential scale r =
     (if scale < 0 then Inl (ValueError ''scale < 0'')
      else Inr (scale * np_random r 0, r\<lparr>np_random := (\<lambda>k. np_random r (Suc k))\<rparr>))"

text \<open>
  Float division. A zero divisor has no real quotient: Python raises
  \<^verbatim>\<open>ZeroDivisionError\<close> on its own floats (NumPy scalars give a non-finite value,
  which the real numbers do not have); the model stops with the error.
\<close>

definition float_div :: "real \<Rightarrow> real \<Rightarrow> error + real" where
  "float_div a b = (if b = 0 then Inl ZeroDivisionError else Inr (a / b))"

section \<open>The request generator\<close>

text \<open>
  \<^verbatim>\<open>req_generator_uniform\<close> is a generator: \<open>req_loop\<close> is its \<^verbatim>\<open>while\<close> loop with the
  local variables \<open>t\<close> and \<open>req_idx\<close>, and the value is what a consumer that exhausts
  the generator receives: the requests in the order of their \<^verbatim>\<open>yield\<close>, or the
  exception an iteration raises. Unpacking \<^verbatim>\<open>orig, dest = ...\<close> needs a sample of
  exactly two elements.
\<close>

function req_loop ::
  "node list \<Rightarrow> int \<Rightarrow> real \<Rightarrow> real \<Rightarrow> int \<Rightarrow> rng \<Rightarrow> error + (request list \<times> rng)" where
  "req_loop ns num_reqs req_rate t req_idx r =
     (if req_idx < num_reqs then
        (case random_sample ns 2 r of
           Inl e \<Rightarrow> Inl e
         | Inr (smp, r1) \<Rightarrow>
           (case smp of
              [orig, dest] \<Rightarrow>
                (case float_div 1 req_rate of
                   Inl e \<Rightarrow> Inl e
                 | Inr scale \<Rightarrow>
                   (case np_exponential scale r1 of
                      Inl e \<Rightarrow> Inl e
                    | Inr (delta_t, r2) \<Rightarrow>
                      (case req_loop ns num_reqs req_rate (t + delta_t) (req_idx + 1) r2 of
                         Inl e \<Rightarrow> Inl e
                       | Inr (rest, r3) \<Rightarrow>
                           Inr (\<lparr>sequence_index = req_idx + 1, arrival_time = t + delta_t,
                                 origin = orig, destination = dest\<rparr> # rest, r3))))
            | _ \<Rightarrow> Inl (ValueError ''not enough values to unpack'')))
      else Inr ([], r))"
  by pat_completeness auto
termination
  by (relation "measure (\<lambda>(ns, num_reqs, req_rate, t, req_idx, r). nat (num_reqs - req_idx))") auto

declare req_loop.simps [simp del]

definition req_generator_uniform ::
  "graph \<Rightarrow> int \<Rightarrow> real \<Rightarrow> rng \<Rightarrow> error + (request list \<times> rng)" where
  "req_generator_uniform graph num_reqs req_rate r = req_loop (nodes graph) num_reqs req_rate 0 0 r"

section \<open>Topologies\<close>

text \<open>
  The networkx generators the script calls, as their documentation gives them: nodes in
  insertion order, one entry per undirected edge.
\<close>

definition cycle_graph :: "nat \<Rightarrow> graph" where
  "cycle_graph n =
     \<lparr>nodes = map NInt [0..<n], edges = map (\<lambda>i. (NInt i, NInt (Suc i mod n))) [0..<n]\<rparr>"

definition path_graph :: "nat \<Rightarrow> graph" where
  "path_graph n =
     \<lparr>nodes = map NInt [0..<n], edges = map (\<lambda>i. (NInt i, NInt (Suc i))) [0..<n - 1]\<rparr>"

text \<open>\<^verbatim>\<open>nx.grid_graph((n,))\<close>: a grid of one dimension is the path on \<open>n\<close> nodes.\<close>

definition grid_graph :: "nat \<Rightarrow> graph" where
  "grid_graph n = path_graph n"

text \<open>\<^verbatim>\<open>nx.star_graph(n)\<close>: the hub \<open>0\<close> and the \<open>n\<close> leaves \<open>1, ..., n\<close>.\<close>

definition star_graph :: "nat \<Rightarrow> graph" where
  "star_graph n =
     \<lparr>nodes = map NInt [0..<Suc n], edges = map (\<lambda>i. (NInt 0, NInt i)) [1..<Suc n]\<rparr>"

definition grid_2d_graph :: "nat \<Rightarrow> nat \<Rightarrow> graph" where
  "grid_2d_graph m n =
     \<lparr>nodes = concat (map (\<lambda>i. map (\<lambda>j. NPair i j) [0..<n]) [0..<m]),
      edges =
        concat (map (\<lambda>i. map (\<lambda>j. (NPair (Suc i) j, NPair i j)) [0..<n]) [0..<m - 1]) @
        concat (map (\<lambda>i. map (\<lambda>j. (NPair i (Suc j), NPair i j)) [0..<n - 1]) [0..<m])\<rparr>"

text \<open>
  \<^verbatim>\<open>nx.triangular_lattice_graph(m, n)\<close>: \<open>m + 1\<close> rows of \<open>(n + 1) div 2 + 1\<close> nodes,
  horizontal and vertical edges, the diagonals of alternating direction per row, and for
  odd \<open>n\<close> the last node of every odd row removed. The nodes are those the edges
  mention, in the order of their first mention.
\<close>

definition nodes_of_edges :: "(node \<times> node) list \<Rightarrow> node list" where
  "nodes_of_edges es = rev (remdups (rev (concat (map (\<lambda>(u, v). [u, v]) es))))"

definition triangular_lattice_graph :: "nat \<Rightarrow> nat \<Rightarrow> graph" where
  "triangular_lattice_graph m n =
     (if n = 0 \<or> m = 0 then \<lparr>nodes = [], edges = []\<rparr>
      else
        let N = (n + 1) div 2;
            rows = [0..<Suc m];
            cols = [0..<Suc N];
            es =
              concat (map (\<lambda>j. map (\<lambda>i. (NPair i j, NPair (Suc i) j)) (take N cols)) rows) @
              concat (map (\<lambda>j. map (\<lambda>i. (NPair i j, NPair i (Suc j))) cols) (take m rows)) @
              concat (map (\<lambda>j. map (\<lambda>i. (NPair i j, NPair (Suc i) (Suc j))) (take N cols))
                        (filter odd (take m rows))) @
              concat (map (\<lambda>j. map (\<lambda>i. (NPair (Suc i) j, NPair i (Suc j))) (take N cols))
                        (filter even (take m rows)));
            removed = (if odd n then map (\<lambda>j. NPair N j) (filter odd rows) else [])
        in \<lparr>nodes = filter (\<lambda>v. v \<notin> set removed) (nodes_of_edges es),
            edges = filter (\<lambda>(u, v). u \<notin> set removed \<and> v \<notin> set removed) es\<rparr>)"

section \<open>Average shortest-path length\<close>

text \<open>
  \<^verbatim>\<open>nx.average_shortest_path_length(G)\<close> without weights: hop distances by breadth-first
  search from every node, summed over all ordered pairs and divided by \<open>n (n - 1)\<close>.
  The null graph and a disconnected graph are errors, a single node gives \<open>0\<close>.
  \<open>bfs\<close> returns the distance of every node it reaches, level by level; a search
  visits at most as many levels as the graph has nodes.
\<close>

definition neighbors :: "graph \<Rightarrow> node \<Rightarrow> node list" where
  "neighbors G v =
     map snd (filter (\<lambda>e. fst e = v) (edges G)) @ map fst (filter (\<lambda>e. snd e = v) (edges G))"

fun bfs :: "graph \<Rightarrow> nat \<Rightarrow> node list \<Rightarrow> node list \<Rightarrow> nat \<Rightarrow> nat list" where
  "bfs G 0 seen frontier d = []"
| "bfs G (Suc fuel) seen frontier d =
     (if frontier = [] then []
      else
        let nxt = remdups (filter (\<lambda>v. v \<notin> set seen) (concat (map (neighbors G) frontier)))
        in replicate (length frontier) d @ bfs G fuel (seen @ nxt) nxt (Suc d))"

definition single_source_shortest_path_length :: "graph \<Rightarrow> node \<Rightarrow> nat list" where
  "single_source_shortest_path_length G v = bfs G (length (nodes G)) [v] [v] 0"

definition is_connected :: "graph \<Rightarrow> bool" where
  "is_connected G =
     (length (single_source_shortest_path_length G (hd (nodes G))) = length (nodes G))"

definition average_shortest_path_length :: "graph \<Rightarrow> error + real" where
  "average_shortest_path_length G =
     (let n = length (nodes G) in
      if n = 0 then Inl NetworkXPointlessConcept
      else if n = 1 then Inr 0
      else if \<not> is_connected G then Inl (NetworkXError ''Graph is not connected.'')
      else
        Inr (real (sum_list (concat (map (single_source_shortest_path_length G) (nodes G))))
             / real (n * (n - 1))))"

text \<open>
  \<^verbatim>\<open>np.linspace(start, stop, num)\<close>: \<open>num\<close> points with a constant step, the last one set
  to \<open>stop\<close>.
\<close>

definition linspace :: "real \<Rightarrow> real \<Rightarrow> nat \<Rightarrow> real list" where
  "linspace start stop num =
     (if num = 0 then []
      else if num = 1 then [start]
      else map (\<lambda>i. start + real i * ((stop - start) / real (num - 1))) [0..<num - 1] @ [stop])"

section \<open>The world the script runs in\<close>

text \<open>
  A result record holds what the engine reports for one sweep point; the result store
  is the dictionary \<^verbatim>\<open>result\<close>, keyed by the sweep value, in insertion order. A file
  holds a pickled result store, a pickled graph, or the nested dictionary of the
  coarse-grained Berlin graphs.
\<close>

record 'd result_record =
  req_data :: 'd
  insertion_data :: 'd

type_synonym 'd result_store = "(real \<times> 'd result_record) list"

datatype 'd content =
    Result_pickle "'d result_store"
  | Graph_pickle graph
  | Graphs_pickle "(nat \<times> (nat \<times> graph) list) list"

text \<open>
  The effects of a run are kept in a trace, in the order they happen: what is printed,
  the wrapping of the graph, the computation of the average shortest-path length, the
  creation of a request generator (request count and rate), a run of the engine (topology
  tag, start node, number of requests it consumed) and a dump to a path.
\<close>

datatype event =
    Print string
  | Print_simulating real
  | Wrap_network string
  | Avg_shortest_path
  | New_generator int real
  | Engine_run string node nat
  | Pickle_dump string

record 'd world =
  files :: "string \<rightharpoonup> 'd content"
  writable :: "string \<Rightarrow> bool"
  rng_state :: rng
  trace :: "event list"

definition emit :: "event \<Rightarrow> 'd world \<Rightarrow> 'd world" where
  "emit ev w = w\<lparr>trace := trace w @ [ev]\<rparr>"

text \<open>
  The package \<^verbatim>\<open>toysimulations\<close> is the external engine: \<open>Network\<close> wraps a graph,
  \<open>ZeroDetourBus\<close> stands for constructing the simulator on the wrapped graph, the
  request stream, the topology tag and the start node, running
  \<^verbatim>\<open>simulate_all_requests\<close> and reading \<^verbatim>\<open>req_data\<close> and \<^verbatim>\<open>insertion_data\<close>.
\<close>

record ('n, 'd) toysimulations =
  Network :: "graph \<Rightarrow> string \<Rightarrow> 'n"
  ZeroDetourBus :: "'n \<Rightarrow> request list \<Rightarrow> string \<Rightarrow> node \<Rightarrow> 'd \<times> 'd"

text \<open>
  An exception leaves the world as it is at the raise: an outcome is the exception or
  the returned value, with the world either way.
\<close>

type_synonym ('a, 'd) outcome = "(error \<times> 'd world) + ('a \<times> 'd world)"

definition outcome_world :: "('a, 'd) outcome \<Rightarrow> 'd world" where
  "outcome_world out = (case out of Inl (e, w) \<Rightarrow> w | Inr (v, w) \<Rightarrow> w)"

text \<open>\<^verbatim>\<open>with open(pickle_path, 'wb') as f: pickle.dump(picklable_res, f)\<close>\<close>

definition pickle_dump :: "string \<Rightarrow> 'd content \<Rightarrow> 'd world \<Rightarrow> (unit, 'd) outcome" where
  "pickle_dump path c w =
     (if writable w path then Inr ((), emit (Pickle_dump path) (w\<lparr>files := (files w)(path \<mapsto> c)\<rparr>))
      else Inl (OSError path, w))"

section \<open>One sweep point\<close>

text \<open>
  \<^verbatim>\<open>simulate_single_request_rate(G, nG, x, network_type, l_avg)\<close>. The generator
  object is created first and draws nothing until the engine consumes it; the start
  node is sampled when the simulator is constructed; the requests are generated while
  \<^verbatim>\<open>simulate_all_requests\<close> runs.
\<close>

definition simulate_single_request_rate ::
  "('n, 'd) toysimulations \<Rightarrow> graph \<Rightarrow> 'n \<Rightarrow> real \<Rightarrow> string \<Rightarrow> real \<Rightarrow> 'd world
     \<Rightarrow> ('d \<times> 'd, 'd) outcome" where
  "simulate_single_request_rate ts G nG x network_type l_avg w =
     (let num_reqs = 10000 in
      case float_div (x / 2) l_avg of
        Inl e \<Rightarrow> Inl (e, w)
      | Inr req_rate \<Rightarrow>
          let w1 = emit (New_generator num_reqs req_rate) w in
          (case random_sample (nodes G) 1 (rng_state w1) of
             Inl e \<Rightarrow> Inl (e, w1)
           | Inr (smp, r1) \<Rightarrow>
             (case smp of
                [] \<Rightarrow> Inl (IndexError, w1)
              | start # _ \<Rightarrow>
                  let w2 = emit (Print_simulating x) (w1\<lparr>rng_state := r1\<rparr>) in
                  (case req_generator_uniform G num_reqs req_rate (rng_state w2) of
                     Inl e \<Rightarrow> Inl (e, w2)
                   | Inr (reqs, r2) \<Rightarrow>
                       Inr (ZeroDetourBus ts nG reqs network_type start,
                            emit (Engine_run network_type start (length reqs))
                              (w2\<lparr>rng_state := r2\<rparr>))))))"

section \<open>The sweep driver\<close>

text \<open>
  The functions of the module that take the arguments of a single sweep point, by
  name: the module defines \<^verbatim>\<open>simulate_single_request_rate\<close> and imports only
  \<^verbatim>\<open>ZeroDetourBus\<close>, \<^verbatim>\<open>Stop\<close>, \<^verbatim>\<open>Request\<close> and \<^verbatim>\<open>Network\<close> from the engine's package.
  A name that is not bound raises \<^verbatim>\<open>NameError\<close> when the call is reached.
\<close>

definition module_globals ::
  "string \<Rightarrow>
     (('n, 'd) toysimulations \<Rightarrow> graph \<Rightarrow> 'n \<Rightarrow> real \<Rightarrow> string \<Rightarrow> real \<Rightarrow> 'd world
        \<Rightarrow> ('d \<times> 'd, 'd) outcome) option" where
  "module_globals name =
     (if name = ''simulate_single_request_rate'' then Some simulate_single_request_rate else None)"

text \<open>
  The body of \<^verbatim>\<open>for x in x_range\<close> in \<^verbatim>\<open>simulate_different_request_rates\<close>: the call
  (the source spells the callee \<^verbatim>\<open>simulate_simgle_request_rate\<close>), the two assignments
  into \<^verbatim>\<open>result[x]\<close>, and the dump of the whole store.
\<close>

fun sweep_loop ::
  "('n, 'd) toysimulations \<Rightarrow> graph \<Rightarrow> 'n \<Rightarrow> string \<Rightarrow> real \<Rightarrow> string \<Rightarrow> real list
     \<Rightarrow> 'd result_store \<Rightarrow> 'd world \<Rightarrow> (unit, 'd) outcome" where
  "sweep_loop ts G nG network_type l_avg pickle_path [] result w = Inr ((), w)"
| "sweep_loop ts G nG network_type l_avg pickle_path (x # xs) result w =
     (case module_globals ''simulate_simgle_request_rate'' of
        None \<Rightarrow> Inl (NameError ''simulate_simgle_request_rate'', w)
      | Some f \<Rightarrow>
          (case f ts G nG x network_type l_avg w of
             Inl ew \<Rightarrow> Inl ew
           | Inr ((req_dat, ins_dat), w1) \<Rightarrow>
               let result1 =
                     AList.update x \<lparr>req_data = req_dat, insertion_data = ins_dat\<rparr> result
               in (case pickle_dump pickle_path (Result_pickle result1) w1 of
                     Inl ew \<Rightarrow> Inl ew
                   | Inr (u, w2) \<Rightarrow>
                       sweep_loop ts G nG network_type l_avg pickle_path xs result1 w2)))"

text \<open>
  \<^verbatim>\<open>simulate_different_request_rates(G, pickle_path, network_type)\<close>; the value \<open>()\<close>
  is Python's \<^verbatim>\<open>None\<close>.
\<close>

definition simulate_different_request_rates ::
  "('n, 'd) toysimulations \<Rightarrow> graph \<Rightarrow> string \<Rightarrow> string \<Rightarrow> 'd world \<Rightarrow> (unit, 'd) outcome" where
  "simulate_different_request_rates ts G pickle_path network_type w =
     (if pickle_path \<in> dom (files w) then
        Inr ((), emit (Print ''pickle exists, doing nothing'') w)
      else
        let nG = Network ts G network_type;
            w1 = emit (Wrap_network network_type) w;
            w2 = emit Avg_shortest_path w1
        in (case average_shortest_path_length G of
              Inl e \<Rightarrow> Inl (e, w2)
            | Inr l_avg \<Rightarrow>
                let x_range = linspace (1 / 10) 40 100;
                    result = []
                in sweep_loop ts G nG network_type l_avg pickle_path x_range result w2))"

section \<open>The script\<close>

text \<open>
  The \<^verbatim>\<open>__main__\<close> block is a sequence of statements over the module variables \<^verbatim>\<open>G\<close>
  and \<^verbatim>\<open>all_Gs\<close>: a print, an assignment of a generated graph to \<^verbatim>\<open>G\<close>, a graph read
  from a file, the load of the coarse-grained graphs, the selection of one of them, and
  a call of the sweep driver on \<^verbatim>\<open>G\<close> with a path and a tag. No statement is inside a
  \<^verbatim>\<open>try\<close>: an exception ends the script.
\<close>

datatype stmt =
    Say string
  | Assign_G graph
  | Read_gpickle string
  | Load_all_Gs string
  | Select_G nat nat
  | Run_sweep string string

record 'd script_state =
  world :: "'d world"
  var_G :: "graph option"
  var_all_Gs :: "(nat \<times> (nat \<times> graph) list) list option"

fun exec_stmt ::
  "('n, 'd) toysimulations \<Rightarrow> stmt \<Rightarrow> 'd script_state \<Rightarrow> (error \<times> 'd script_state) + 'd script_state" where
  "exec_stmt ts (Say msg) st = Inr (st\<lparr>world := emit (Print msg) (world st)\<rparr>)"
| "exec_stmt ts (Assign_G g) st = Inr (st\<lparr>var_G := Some g\<rparr>)"
| "exec_stmt ts (Read_gpickle path) st =
     (case files (world st) path of
        None \<Rightarrow> Inl (FileNotFoundError path, st)
      | Some (Graph_pickle g) \<Rightarrow> Inr (st\<lparr>var_G := Some g\<rparr>)
      | Some _ \<Rightarrow> Inl (UnpicklingError path, st))"
| "exec_stmt ts (Load_all_Gs path) st =
     (case files (world st) path of
        None \<Rightarrow> Inl (FileNotFoundError path, st)
      | Some (Graphs_pickle gs) \<Rightarrow> Inr (st\<lparr>var_all_Gs := Some gs\<rparr>)
      | Some _ \<Rightarrow> Inl (UnpicklingError path, st))"
| "exec_stmt ts (Select_G a b) st =
     (case var_all_Gs st of
        None \<Rightarrow> Inl (NameError ''all_Gs'', st)
      | Some gs \<Rightarrow>
          (case map_of gs a of
             None \<Rightarrow> Inl (KeyError, st)
           | Some row \<Rightarrow>
               (case map_of row b of
                  None \<Rightarrow> Inl (KeyError, st)
                | Some g \<Rightarrow> Inr (st\<lparr>var_G := Some g\<rparr>))))"
| "exec_stmt ts (Run_sweep pickle_path network_type) st =
     (case var_G st of
        None \<Rightarrow> Inl (NameError ''G'', st)
      | Some g \<Rightarrow>
          (case simulate_different_request_rates ts g pickle_path network_type (world st) of
             Inl (e, w) \<Rightarrow> Inl (e, st\<lparr>world := w\<rparr>)
           | Inr (u, w) \<Rightarrow> Inr (st\<lparr>world := w\<rparr>)))"

fun exec_all ::
  "('n, 'd) toysimulations \<Rightarrow> stmt list \<Rightarrow> 'd script_state \<Rightarrow> (error \<times> 'd script_state) + 'd script_state" where
  "exec_all ts [] st = Inr st"
| "exec_all ts (s # ss) st =
     (case exec_stmt ts s st of Inl e \<Rightarrow> Inl e | Inr st' \<Rightarrow> exec_all ts ss st')"

text \<open>The decimal digits of a number, as an f-string prints it.\<close>

fun str_nat :: "nat \<Rightarrow> string" where
  "str_nat n =
     (if n < 10 then [char_of (48 + n)] else str_nat (n div 10) @ [char_of (48 + n mod 10)])"

definition coarse_berlin :: "nat \<times> nat \<Rightarrow> stmt list" where
  "coarse_berlin p =
     (case p of (coarse_graining_meters, target_edge_length) \<Rightarrow>
        [Say (''Doing Berlin '' @ str_nat coarse_graining_meters @ '' '' @ str_nat target_edge_length),
         Select_G coarse_graining_meters target_edge_length,
         Run_sweep (''../data/street_berlin_homogenized_coarse_graining_meters_''
                      @ str_nat coarse_graining_meters @ ''_target_edge_length_''
                      @ str_nat target_edge_length @ ''.pkl'') ''novolcomp''])"

text \<open>
  The statements of the script, in order: the six generated topologies, the three
  street networks with the load of the coarse-grained Berlin graphs, and the loop over
  the three coarse-graining settings. The two bytes after \<^verbatim>\<open>doing G\<close> are the UTF-8
  encoding of the o with diaeresis.
\<close>

definition synthetic_sweeps :: "stmt list" where
  "synthetic_sweeps =
     [Say ''doing ring10'', Assign_G (cycle_graph 10),
      Run_sweep ''../data/ring_10.pkl'' ''ring'', Say ''done ring10'',
      Say ''doing ring100'', Assign_G (cycle_graph 101),
      Run_sweep ''../data/ring_100.pkl'' ''ring'', Say ''done ring100'',
      Say ''doing line100'', Assign_G (grid_graph 100),
      Run_sweep ''../data/line_100.pkl'' ''line'', Say ''done line100'',
      Say ''doing star100'', Assign_G (star_graph 100),
      Run_sweep ''../data/star_100.pkl'' ''star'', Say ''done star100'',
      Say ''doing grid100'', Assign_G (grid_2d_graph 10 10),
      Run_sweep ''../data/grid_10.pkl'' ''grid'', Say ''done grid100'',
      Say ''doing trigrid13'', Assign_G (triangular_lattice_graph 13 13),
      Run_sweep ''../data/trigrid_13.pkl'' ''trigrid'', Say ''done trigrid13'']"

definition street_sweeps :: "stmt list" where
  "street_sweeps =
     [Say (''doing G'' @ [CHR 0xC3, CHR 0xB6]),
      Read_gpickle ''../data/homogenized_networks/goe//G_homog.gpkl'',
      Run_sweep ''../data/street_goe_homogenized.pkl'' ''novolcomp'',
      Say (''done G'' @ [CHR 0xC3, CHR 0xB6]),
      Say ''doing Harz'', Read_gpickle ''../data/homogenized_networks/harz//G_homog.gpkl'',
      Run_sweep ''../data/street_harz_homogenized.pkl'' ''novolcomp'', Say ''done Harz'',
      Say ''doing Berlin'', Read_gpickle ''../data/homogenized_networks/berlin//G_homog.gpkl'',
      Run_sweep ''../data/street_berlin_homogenized.pkl'' ''novolcomp'', Say ''done Berlin'',
      Load_all_Gs ''../data/homogenized_networks/berlin//diff_coarse_graining/all_berlin.pkl'']"

definition main_script :: "stmt list" where
  "main_script =
     synthetic_sweeps @ street_sweeps
       @ concat (map coarse_berlin [(200, 400), (200, 600), (200, 800)])"

definition initial_state :: "'d world \<Rightarrow> 'd script_state" where
  "initial_state w = \<lparr>world = w, var_G = None, var_all_Gs = None\<rparr>"

definition main :: "('n, 'd) toysimulations \<Rightarrow> 'd world \<Rightarrow> (error \<times> 'd script_state) + 'd script_state" where
  "main ts w = exec_all ts main_script (initial_state w)"

section \<open>Notions used to state the properties\<close>

text \<open>
  \<open>pick2 pool i j\<close> is the pair \<^verbatim>\<open>random.sample(pool, 2)\<close> returns when its two draws
  are \<open>i\<close> and \<open>j\<close>. \<open>advance\<close> is the state of the two random sources after one
  request: two integers and one exponential variate consumed. \<open>nth_request\<close> is the
  request number \<open>k\<close> (from 0) of a stream started at time \<open>t\<close> and index \<open>req_idx\<close>.
\<close>

definition pick2 :: "'a list \<Rightarrow> nat \<Rightarrow> nat \<Rightarrow> 'a \<times> 'a" where
  "pick2 pool i j = (pool ! i, butlast (pool[i := last pool]) ! j)"

definition advance :: "rng \<Rightarrow> rng" where
  "advance r = r\<lparr>py_random := (\<lambda>k. py_random r (k + 2)), np_random := (\<lambda>k. np_random r (Suc k))\<rparr>"

definition nth_request :: "node list \<Rightarrow> real \<Rightarrow> real \<Rightarrow> int \<Rightarrow> rng \<Rightarrow> nat \<Rightarrow> request" where
  "nth_request ns req_rate t req_idx r k =
     \<lparr>sequence_index = req_idx + 1 + int k,
      arrival_time = t + (\<Sum>m\<le>k. 1 / req_rate * np_random r m),
      origin = fst (pick2 ns (py_random r (2 * k) mod length ns) (py_random r (2 * k + 1) mod (length ns - 1))),
      destination = snd (pick2 ns (py_random r (2 * k) mod length ns) (py_random r (2 * k + 1) mod (length ns - 1)))\<rparr>"

text \<open>Concrete inputs on which the theorems below are instantiated.\<close>

definition demo_rng :: rng where
  "demo_rng = \<lparr>py_random = (\<lambda>k. k mod 4), np_random = (\<lambda>k. real (Suc k))\<rparr>"

definition demo_requests :: "request list" where
  "demo_requests =
     [\<lparr>sequence_index = 1, arrival_time = 1 / 2, origin = NInt 0, destination = NInt 1\<rparr>,
      \<lparr>sequence_index = 2, arrival_time = 3 / 2, origin = NInt 2, destination = NInt 1\<rparr>,
      \<lparr>sequence_index = 3, arrival_time = 3, origin = NInt 0, destination = NInt 1\<rparr>]"

text \<open>
  An engine that reports the number of requests it was given, a world with no file at
  all, and a world that holds a result file with a single sweep point (what an
  interrupted sweep leaves behind).
\<close>

definition demo_engine :: "(graph \<times> string, nat) toysimulations" where
  "demo_engine =
     \<lparr>Network = (\<lambda>G network_type. (G, network_type)),
      ZeroDetourBus = (\<lambda>nG reqs network_type start. (length reqs, 0))\<rparr>"

definition fresh_world :: "nat world" where
  "fresh_world =
     \<lparr>files = Map.empty, writable = (\<lambda>path. True), rng_state = demo_rng, trace = []\<rparr>"

definition interrupted_world :: "nat world" where
  "interrupted_world =
     fresh_world\<lparr>files :=
       [''../data/ring_10.pkl'' \<mapsto>
          Result_pickle [(1 / 10, \<lparr>req_data = 10000, insertion_data = 0\<rparr>)]]\<rparr>"

text \<open>
  A world in which the six generated topologies have a result file already and the
  graph files of Harz and Berlin exist, but the graph file of G\<^verbatim>\<open>oe\<close>ttingen does not.
\<close>

definition goe_missing_world :: "nat world" where
  "goe_missing_world =
     fresh_world\<lparr>files :=
       map_of
         [(''../data/ring_10.pkl'', Result_pickle []),
          (''../data/ring_100.pkl'', Result_pickle []),
          (''../data/line_100.pkl'', Result_pickle []),
          (''../data/star_100.pkl'', Result_pickle []),
          (''../data/grid_10.pkl'', Result_pickle []),
          (''../data/trigrid_13.pkl'', Result_pickle []),
          (''../data/homogenized_networks/harz//G_homog.gpkl'', Graph_pickle (path_graph 2)),
          (''../data/homogenized_networks/berlin//G_homog.gpkl'', Graph_pickle (path_graph 2))]\<rparr>"

text \<open>What the script has printed in that world when it reaches the missing file.\<close>

definition goe_missing_trace :: "event list" where
  "goe_missing_trace =
     [Print ''doing ring10'', Print ''pickle exists, doing nothing'', Print ''done ring10'',
      Print ''doing ring100'', Print ''pickle exists, doing nothing'', Print ''done ring100'',
      Print ''doing line100'', Print ''pickle exists, doing nothing'', Print ''done line100'',
      Print ''doing star100'', Print ''pickle exists, doing nothing'', Print ''done star100'',
      Print ''doing grid100'', Print ''pickle exists, doing nothing'', Print ''done grid100'',
      Print ''doing trigrid13'', Print ''pickle exists, doing nothing'', Print ''done trigrid13'',
      Print (''doing G'' @ [CHR 0xC3, CHR 0xB6])]"

definition is_generator_event :: "event \<Rightarrow> bool" where
  "is_generator_event ev = (case ev of New_generator n rate \<Rightarrow> True | _ \<Rightarrow> False)"

section \<open>Sampling without replacement\<close>

lemma pool_step:
  assumes "distinct pool" "j < length pool"
  shows "distinct (butlast (pool[j := last pool])) \<and>
         set (butlast (pool[j := last pool])) = set pool - {pool ! j}"
proof (cases pool rule: rev_cases)
  case Nil
  with assms show ?thesis by simp
next
  case (snoc xs l)
  show ?thesis
  proof (cases "j = length xs")
    case True
    with snoc assms show ?thesis by auto
  next
    case False
    with snoc assms have j: "j < length xs" by simp
    have eq: "butlast (pool[j := last pool]) = xs[j := l]"
      using snoc j by (simp add: list_update_append)
    have d: "distinct (xs[j := l])"
      using snoc assms(1) by (simp add: distinct_list_update)
    have s: "set (xs[j := l]) = insert l (set xs - {xs ! j})"
      using snoc assms(1) j by (simp add: set_update_distinct)
    have "pool ! j = xs ! j" using snoc j by (simp add: nth_append)
    moreover have "xs ! j \<noteq> l" using snoc assms(1) j by auto
    ultimately show ?thesis using eq d s snoc assms(1) by auto
  qed
qed

lemma sample_pool_length: "length (fst (sample_pool pool k r)) = k"
  by (induction k arbitrary: pool r) (simp_all add: randbelow_def Let_def case_prod_beta)

lemma sample_pool_np: "np_random (snd (sample_pool pool k r)) = np_random r"
  by (induction k arbitrary: pool r) (simp_all add: randbelow_def Let_def case_prod_beta)

lemma sample_pool_distinct:
  "distinct pool \<Longrightarrow> k \<le> length pool \<Longrightarrow>
   distinct (fst (sample_pool pool k r)) \<and> set (fst (sample_pool pool k r)) \<subseteq> set pool"
proof (induction k arbitrary: pool r)
  case 0
  then show ?case by simp
next
  case (Suc k)
  let ?j = "py_random r 0 mod length pool"
  let ?pool' = "butlast (pool[?j := last pool])"
  from Suc.prems have n: "0 < length pool" by auto
  then have j: "?j < length pool" by simp
  from pool_step[OF Suc.prems(1) j]
  have d: "distinct ?pool'" and s: "set ?pool' = set pool - {pool ! ?j}" by simp_all
  have l: "k \<le> length ?pool'" using Suc.prems by simp
  from Suc.IH[OF d l] s j show ?case
    by (auto simp: randbelow_def Let_def case_prod_beta)
qed

lemma random_sample_two:
  assumes "2 \<le> length ns"
  shows "random_sample ns 2 r =
     Inr ([fst (pick2 ns (py_random r 0 mod length ns) (py_random r 1 mod (length ns - 1))),
           snd (pick2 ns (py_random r 0 mod length ns) (py_random r 1 mod (length ns - 1)))],
          r\<lparr>py_random := (\<lambda>k. py_random r (k + 2))\<rparr>)"
proof -
  have k: "(2::nat) = Suc (Suc 0)" by simp
  show ?thesis using assms
    by (simp add: random_sample_def k randbelow_def pick2_def Let_def)
qed

lemma req_loop_step:
  assumes "req_idx < num_reqs" "2 \<le> length ns" "0 < req_rate"
  shows "req_loop ns num_reqs req_rate t req_idx r =
     (case req_loop ns num_reqs req_rate (t + 1 / req_rate * np_random r 0) (req_idx + 1) (advance r) of
        Inl e \<Rightarrow> Inl e
      | Inr (rest, r3) \<Rightarrow>
          Inr (\<lparr>sequence_index = req_idx + 1, arrival_time = t + 1 / req_rate * np_random r 0,
                origin = fst (pick2 ns (py_random r 0 mod length ns) (py_random r 1 mod (length ns - 1))),
                destination = snd (pick2 ns (py_random r 0 mod length ns) (py_random r 1 mod (length ns - 1)))\<rparr>
               # rest, r3))"
  using assms
  by (subst req_loop.simps)
     (auto simp add: random_sample_two float_div_def np_exponential_def advance_def split: sum.splits)



section \<open>The request stream in closed form\<close>

lemma nth_request_shift:
  "nth_request ns req_rate (t + 1 / req_rate * np_random r 0) (req_idx + 1) (advance r) k =
   nth_request ns req_rate t req_idx r (Suc k)"
  by (simp add: nth_request_def advance_def sum.atMost_Suc_shift algebra_simps del: sum.atMost_Suc)

lemma map_upt_Suc_shift: "map f [0..<Suc m] = f 0 # map (\<lambda>k. f (Suc k)) [0..<m]"
  by (simp add: upt_conv_Cons map_Suc_upt[symmetric] del: upt_Suc)

lemma req_loop_closed:
  assumes "2 \<le> length ns" "0 < req_rate"
  shows "req_loop ns num_reqs req_rate t req_idx r =
     Inr (map (nth_request ns req_rate t req_idx r) [0..<nat (num_reqs - req_idx)],
          (advance ^^ nat (num_reqs - req_idx)) r)"
proof (induction "nat (num_reqs - req_idx)" arbitrary: t req_idx r)
  case 0
  then have "\<not> req_idx < num_reqs" by simp
  then show ?case using 0 by (subst req_loop.simps) simp
next
  case (Suc m)
  then have lt: "req_idx < num_reqs" and m: "m = nat (num_reqs - (req_idx + 1))" by linarith+
  have first: "nth_request ns req_rate t req_idx r 0 =
     \<lparr>sequence_index = req_idx + 1, arrival_time = t + 1 / req_rate * np_random r 0,
      origin = fst (pick2 ns (py_random r 0 mod length ns) (py_random r 1 mod (length ns - 1))),
      destination = snd (pick2 ns (py_random r 0 mod length ns) (py_random r 1 mod (length ns - 1)))\<rparr>"
    by (simp add: nth_request_def)
  show ?case
    unfolding Suc(2)[symmetric]
    by (subst req_loop_step[OF lt assms])
       (simp add: Suc(1)[OF m] m[symmetric] nth_request_shift[simplified] map_upt_Suc_shift first
          funpow_swap1 del: upt_Suc)
qed

lemma upto_from_one: "map (\<lambda>k. 1 + int k) [0..<n] = [1..int n]"
proof (induction n)
  case 0
  then show ?case by simp
next
  case (Suc n)
  have "[1..int (Suc n)] = [1..int n] @ [int n + 1]"
    by (simp add: upto_rec2)
  with Suc show ?case by simp
qed

lemma req_generator_uniform_closed:
  assumes "2 \<le> length (nodes g)" "0 < rate"
  shows "req_generator_uniform g count rate r =
     Inr (map (nth_request (nodes g) rate 0 0 r) [0..<nat count], (advance ^^ nat count) r)"
  using req_loop_closed[OF assms, of count 0 0 r] by (simp add: req_generator_uniform_def)

lemma req_loop_Inr_pre:
  assumes "req_loop ns num_reqs req_rate t req_idx r = Inr res" "req_idx < num_reqs"
  shows "2 \<le> length ns \<and> 0 < req_rate"
proof -
  have a: "2 \<le> length ns"
    using assms by (subst (asm) req_loop.simps) (auto simp: random_sample_def split: if_splits)
  have b: "req_rate \<noteq> 0"
    using assms a
    by (subst (asm) req_loop.simps)
       (auto simp: random_sample_two float_div_def split: if_splits)
  have c: "\<not> 1 / req_rate < 0"
    using assms a b
    by (subst (asm) req_loop.simps)
       (auto simp: random_sample_two float_div_def np_exponential_def split: if_splits)
  from b c have "0 < req_rate"
    by (simp add: not_less)
  with a show ?thesis by simp
qed

lemma req_loop_nothing:
  "\<not> req_idx < num_reqs \<Longrightarrow> req_loop ns num_reqs req_rate t req_idx r = Inr ([], r)"
  by (subst req_loop.simps) simp

lemma generated_cases:
  assumes "req_generator_uniform g count rate r = Inr (reqs, r')"
  shows "reqs = [] \<or>
         (2 \<le> length (nodes g) \<and> 0 < rate \<and>
          reqs = map (nth_request (nodes g) rate 0 0 r) [0..<nat count])"
proof (cases "0 < count")
  case True
  from assms have "req_loop (nodes g) count rate 0 0 r = Inr (reqs, r')"
    by (simp add: req_generator_uniform_def)
  from req_loop_Inr_pre[OF this True] have p: "2 \<le> length (nodes g)" "0 < rate" by simp_all
  from assms req_generator_uniform_closed[OF p, of count r] show ?thesis using p by simp
next
  case False
  then have "req_generator_uniform g count rate r = Inr ([], r)"
    by (simp add: req_generator_uniform_def req_loop_nothing)
  with assms show ?thesis by simp
qed

lemma arrival_sum_strict:
  fixes f :: "nat \<Rightarrow> real"
  assumes "\<And>k. 0 < f k" "i < j"
  shows "(\<Sum>m\<le>i. f m) < (\<Sum>m\<le>j. f m)"
proof -
  have "sum f {..i} < sum f {..j}"
  proof (rule sum_strict_mono2[where b = j])
    show "finite {..j}" by simp
    show "{..i} \<subseteq> {..j}" using assms(2) by auto
    show "j \<in> {..j} - {..i}" using assms(2) by auto
    show "0 < f j" by (rule assms(1))
    show "\<And>x. x \<in> {..j} \<Longrightarrow> 0 \<le> f x" using assms(1) by (simp add: less_imp_le)
  qed
  then show ?thesis .
qed

lemma demo_run:
  "req_generator_uniform (cycle_graph 3) 3 2 demo_rng = Inr (demo_requests, (advance ^^ 3) demo_rng)"
proof -
  have n: "nodes (cycle_graph 3) = [NInt 0, NInt 1, NInt 2]"
    by (simp add: cycle_graph_def upt_conv_Cons)
  have h: "2 \<le> length (nodes (cycle_graph 3))" by (simp add: n)
  have u: "[0..<nat 3] = [0, 1, 2]" by (simp add: upt_conv_Cons)
  have s0: "{..0::nat} = {0}" by auto
  have s1: "{..1::nat} = {0, 1}" by auto
  have s2: "{..2::nat} = {0, 1, 2}" by auto
  have c: "req_generator_uniform (cycle_graph 3) 3 2 demo_rng =
     Inr (map (nth_request (nodes (cycle_graph 3)) 2 0 0 demo_rng) [0..<nat 3], (advance ^^ nat 3) demo_rng)"
    using req_generator_uniform_closed[OF h, of 2 3 demo_rng] by simp
  have l: "length [NInt 0, NInt 1, NInt 2] = 3" by simp
  have p01: "pick2 [NInt 0, NInt (Suc 0), NInt 2] 0 (Suc 0) = (NInt 0, NInt (Suc 0))" by code_simp
  have p21: "pick2 [NInt 0, NInt (Suc 0), NInt 2] 2 (Suc 0) = (NInt 2, NInt (Suc 0))" by code_simp
  have m: "map (nth_request (nodes (cycle_graph 3)) 2 0 0 demo_rng) [0..<nat 3] = demo_requests"
    unfolding n u list.map nth_request_def l demo_rng_def demo_requests_def
    by (simp add: p01 p21 s0 s1 s2)
  show ?thesis unfolding c m by simp
qed

section \<open>The driver and the script, step by step\<close>

lemma trace_emit [simp]: "trace (emit ev w) = trace w @ [ev]"
  by (simp add: emit_def)

lemma files_emit [simp]: "files (emit ev w) = files w"
  by (simp add: emit_def)

lemma rng_emit [simp]: "rng_state (emit ev w) = rng_state w"
  by (simp add: emit_def)

lemma writable_emit [simp]: "writable (emit ev w) = writable w"
  by (simp add: emit_def)

lemma driver_on_existing_path:
  "pickle_path \<in> dom (files w) \<Longrightarrow>
   simulate_different_request_rates ts G pickle_path network_type w =
     Inr ((), emit (Print ''pickle exists, doing nothing'') w)"
  by (simp add: simulate_different_request_rates_def)

lemma linspace_100_nonempty: "linspace a b 100 \<noteq> []"
  by (simp add: linspace_def)

lemma sweep_loop_raises:
  "xs \<noteq> [] \<Longrightarrow> sweep_loop ts G nG network_type l_avg pickle_path xs result w =
     Inl (NameError ''simulate_simgle_request_rate'', w)"
  by (cases xs) (simp_all add: module_globals_def)

lemma driver_on_absent_path:
  assumes "pickle_path \<notin> dom (files w)"
  shows "simulate_different_request_rates ts G pickle_path network_type w =
     (case average_shortest_path_length G of
        Inl e \<Rightarrow> Inl (e, emit Avg_shortest_path (emit (Wrap_network network_type) w))
      | Inr l_avg \<Rightarrow>
          Inl (NameError ''simulate_simgle_request_rate'',
               emit Avg_shortest_path (emit (Wrap_network network_type) w)))"
  using assms
  by (simp add: simulate_different_request_rates_def Let_def sweep_loop_raises linspace_100_nonempty
      split: sum.splits)

lemma l_avg_ring10: "average_shortest_path_length (cycle_graph 10) = Inr (25 / 9)"
  by code_simp

lemma l_avg_grid: "average_shortest_path_length (grid_2d_graph 2 2) = Inr (4 / 3)"
  by code_simp

lemma l_avg_star3: "average_shortest_path_length (star_graph 3) = Inr (3 / 2)"
  by code_simp


lemma single_rate_generator_events:
  assumes "l_avg \<noteq> 0"
  shows "filter is_generator_event
           (trace (outcome_world (simulate_single_request_rate ts G nG x network_type l_avg w))) =
         filter is_generator_event (trace w) @ [New_generator 10000 (x / (2 * l_avg))]"
  using assms
  by (simp add: simulate_single_request_rate_def float_div_def outcome_world_def
        is_generator_event_def Let_def
      split: sum.splits list.splits prod.splits)

lemma exec_all_append:
  "exec_all ts (xs @ ys) st =
     (case exec_all ts xs st of Inl e \<Rightarrow> Inl e | Inr st' \<Rightarrow> exec_all ts ys st')"
  by (induction xs arbitrary: st) (simp_all split: sum.splits)

lemma script_failure:
  "exec_all ts pre st = Inr st1 \<Longrightarrow> exec_stmt ts s st1 = Inl (e, st2) \<Longrightarrow>
   exec_all ts (pre @ s # post) st = Inl (e, st2)"
  by (simp add: exec_all_append)

lemma goe_prefix:
  "exec_all demo_engine (synthetic_sweeps @ [Say (''doing G'' @ [CHR 0xC3, CHR 0xB6])])
      (initial_state goe_missing_world) =
     Inr \<lparr>world = goe_missing_world\<lparr>trace := goe_missing_trace\<rparr>,
          var_G = Some (triangular_lattice_graph 13 13), var_all_Gs = None\<rparr>"
  by (simp add: synthetic_sweeps_def initial_state_def goe_missing_world_def fresh_world_def
      goe_missing_trace_def driver_on_existing_path emit_def)

section \<open>Claims about the request generator\<close>

text \<open>
  C6, as amended. On a graph with at least two nodes, for every count \<open>\<ge> 0\<close> and every
  positive rate, the generator runs to its end and yields exactly \<open>count\<close> requests
  whose sequence indices are \<open>1, 2, ..., count\<close> in emission order, whatever the
  random draws (and so whatever the arrival times) are.
\<close>

theorem request_count_and_indices:
  assumes "2 \<le> length (nodes g)" and "0 \<le> count" and "0 < rate"
  shows "\<exists>reqs r'. req_generator_uniform g count rate r = Inr (reqs, r') \<and>
           int (length reqs) = count \<and> map sequence_index reqs = [1..count]"
proof -
  let ?reqs = "map (nth_request (nodes g) rate 0 0 r) [0..<nat count]"
  have "map sequence_index ?reqs = map (\<lambda>k. 1 + int k) [0..<nat count]"
    by (simp add: nth_request_def comp_def)
  also have "\<dots> = [1..count]" using assms(2) by (simp add: upto_from_one)
  finally have "map sequence_index ?reqs = [1..count]" .
  moreover have "int (length ?reqs) = count" using assms(2) by simp
  ultimately show ?thesis
    using req_generator_uniform_closed[OF assms(1,3), of count r] by blast
qed

theorem request_count_and_indices_witness:
  "2 \<le> length (nodes (cycle_graph 3)) \<and> (0::int) \<le> 3 \<and> (0::real) < 2 \<and>
   (\<exists>reqs r'. req_generator_uniform (cycle_graph 3) 3 2 demo_rng = Inr (reqs, r') \<and>
      int (length reqs) = 3 \<and> map sequence_index reqs = [1..3])"
proof -
  have h: "2 \<le> length (nodes (cycle_graph 3))" by (simp add: cycle_graph_def)
  from request_count_and_indices[OF h, of 3 2 demo_rng] h show ?thesis by simp
qed

text \<open>
  C6 as stated (``for every graph'') fails on a graph with a single node: the first
  iteration asks \<^verbatim>\<open>random.sample\<close> for two of one node, which raises, and no request
  is produced although one was asked for.
\<close>

theorem single_node_graph_counterexample:
  "req_generator_uniform (path_graph 1) 1 1 demo_rng =
     Inl (ValueError ''Sample larger than population or is negative'')"
  by (simp add: req_generator_uniform_def req_loop.simps random_sample_def path_graph_def)

text \<open>
  C7. In a generated stream the arrival time of the \<open>i\<close>-th request is the running sum
  of the first \<open>i\<close> inter-arrival draws, each draw being the next standard exponential
  variate of NumPy's stream scaled by \<open>1 / rate\<close> (an exponential sample of mean
  \<open>1 / rate\<close>, a fresh variate per request); the variates being positive, the arrival
  times are strictly increasing.
\<close>

theorem arrival_times_running_sum:
  assumes "req_generator_uniform g count rate r = Inr (reqs, r')"
  shows "(\<forall>i<length reqs. arrival_time (reqs ! i) = (\<Sum>k\<le>i. 1 / rate * np_random r k)) \<and>
         ((\<forall>k. 0 < np_random r k) \<longrightarrow> sorted_wrt (<) (map arrival_time reqs))"
proof -
  from generated_cases[OF assms] show ?thesis
  proof
    assume "reqs = []"
    then show ?thesis by simp
  next
    assume c: "2 \<le> length (nodes g) \<and> 0 < rate \<and>
               reqs = map (nth_request (nodes g) rate 0 0 r) [0..<nat count]"
    then have at: "\<And>i. i < length reqs \<Longrightarrow>
        arrival_time (reqs ! i) = (\<Sum>k\<le>i. 1 / rate * np_random r k)"
      by (simp add: nth_request_def)
    have "sorted_wrt (<) (map arrival_time reqs)" if pos: "\<forall>k. 0 < np_random r k"
    proof -
      have p: "\<And>k. 0 < 1 / rate * np_random r k" using c pos by simp
      show ?thesis
        unfolding sorted_wrt_iff_nth_less
      proof (intro allI impI)
        fix i j
        assume "i < j" "j < length (map arrival_time reqs)"
        then show "map arrival_time reqs ! i < map arrival_time reqs ! j"
          using at arrival_sum_strict[of "\<lambda>k. 1 / rate * np_random r k" i j, OF p] by simp
      qed
    qed
    with at show ?thesis by blast
  qed
qed

theorem arrival_times_running_sum_witness:
  "req_generator_uniform (cycle_graph 3) 3 2 demo_rng = Inr (demo_requests, (advance ^^ 3) demo_rng) \<and>
   arrival_time (demo_requests ! 2) = (\<Sum>k\<le>2. 1 / 2 * np_random demo_rng k) \<and>
   map arrival_time demo_requests = [1 / 2, 3 / 2, 3] \<and>
   sorted_wrt (<) (map arrival_time demo_requests)"
proof -
  have pos: "\<forall>k. 0 < np_random demo_rng k" by (simp add: demo_rng_def)
  have len: "2 < length demo_requests" by (simp add: demo_requests_def)
  from arrival_times_running_sum[OF demo_run] pos len
  have "arrival_time (demo_requests ! 2) = (\<Sum>k\<le>2. 1 / 2 * np_random demo_rng k)"
    and "sorted_wrt (<) (map arrival_time demo_requests)" by blast+
  moreover have "map arrival_time demo_requests = [1 / 2, 3 / 2, 3]"
    by (simp add: demo_requests_def)
  ultimately show ?thesis using demo_run by simp
qed



section \<open>Claims about the sweep driver\<close>

text \<open>
  C3. When the pickle path exists on entry, the driver prints one line and returns:
  the world afterwards is the world before with that line added to the trace. No graph
  is wrapped, no average shortest-path length computed, no generator created, no engine
  run, no random number drawn, no file written or changed, whatever the existing file
  holds.
\<close>

theorem existing_pickle_is_skipped:
  assumes "pickle_path \<in> dom (files w)"
  shows "simulate_different_request_rates ts G pickle_path network_type w =
           Inr ((), w\<lparr>trace := trace w @ [Print ''pickle exists, doing nothing'']\<rparr>)"
  using assms by (simp add: driver_on_existing_path emit_def)

theorem existing_pickle_is_skipped_witness:
  "''../data/ring_10.pkl'' \<in> dom (files interrupted_world) \<and>
   simulate_different_request_rates demo_engine (cycle_graph 10) ''../data/ring_10.pkl'' ''ring''
       interrupted_world =
     Inr ((), interrupted_world\<lparr>trace := [Print ''pickle exists, doing nothing'']\<rparr>)"
proof -
  have h: "''../data/ring_10.pkl'' \<in> dom (files interrupted_world)"
    by (simp add: interrupted_world_def)
  have t: "trace interrupted_world = []"
    by (simp add: interrupted_world_def fresh_world_def)
  from existing_pickle_is_skipped[OF h, of demo_engine "cycle_graph 10" "''ring''"] h t
  show ?thesis by simp
qed

text \<open>
  C5. A call of \<^verbatim>\<open>simulate_single_request_rate\<close> with a non-zero \<open>l_avg\<close> creates exactly
  one request generator, for 10000 requests at the rate \<open>x / (2 l_avg)\<close>; for
  \<open>l_avg > 0\<close> that rate is strictly increasing in \<open>x\<close>; and a sweep on a path that
  does not exist computes the average shortest-path length exactly once, right after
  wrapping the graph and before anything the loop does.
\<close>

theorem normalized_rate:
  "(l_avg \<noteq> 0 \<longrightarrow>
      filter is_generator_event
        (trace (outcome_world (simulate_single_request_rate ts G nG x network_type l_avg w))) =
      filter is_generator_event (trace w) @ [New_generator 10000 (x / (2 * l_avg))]) \<and>
   (0 < l_avg \<and> x < y \<longrightarrow> x / (2 * l_avg) < y / (2 * l_avg)) \<and>
   (pickle_path \<notin> dom (files w) \<longrightarrow>
      (\<exists>rest. trace (outcome_world
                 (simulate_different_request_rates ts G pickle_path network_type w)) =
               trace w @ [Wrap_network network_type, Avg_shortest_path] @ rest \<and>
             Avg_shortest_path \<notin> set rest))"
proof (intro conjI impI)
  assume "l_avg \<noteq> 0"
  then show "filter is_generator_event
        (trace (outcome_world (simulate_single_request_rate ts G nG x network_type l_avg w))) =
      filter is_generator_event (trace w) @ [New_generator 10000 (x / (2 * l_avg))]"
    by (rule single_rate_generator_events)
next
  assume "0 < l_avg \<and> x < y"
  then show "x / (2 * l_avg) < y / (2 * l_avg)"
    by (simp add: divide_strict_right_mono)
next
  assume "pickle_path \<notin> dom (files w)"
  then have "trace (outcome_world
                 (simulate_different_request_rates ts G pickle_path network_type w)) =
               trace w @ [Wrap_network network_type, Avg_shortest_path] @ []"
    by (simp add: driver_on_absent_path outcome_world_def split: sum.splits)
  then show "\<exists>rest. trace (outcome_world
                 (simulate_different_request_rates ts G pickle_path network_type w)) =
               trace w @ [Wrap_network network_type, Avg_shortest_path] @ rest \<and>
             Avg_shortest_path \<notin> set rest"
    by (intro exI[of _ "[]"]) simp
qed

theorem normalized_rate_witness:
  "(25 / 9 :: real) \<noteq> 0 \<and>
   filter is_generator_event
     (trace (outcome_world (simulate_single_request_rate demo_engine (cycle_graph 10)
        (cycle_graph 10, ''ring'') (1 / 10) ''ring'' (25 / 9) fresh_world))) =
     [New_generator 10000 (9 / 500)] \<and>
   (0 :: real) < 25 / 9 \<and> (1 / 10 :: real) < 40 \<and>
   (1 / 10) / (2 * (25 / 9)) < (40 :: real) / (2 * (25 / 9)) \<and>
   ''../data/ring_10.pkl'' \<notin> dom (files fresh_world) \<and>
   (\<exists>rest. trace (outcome_world (simulate_different_request_rates demo_engine (cycle_graph 10)
                ''../data/ring_10.pkl'' ''ring'' fresh_world)) =
             trace fresh_world @ [Wrap_network ''ring'', Avg_shortest_path] @ rest \<and>
           Avg_shortest_path \<notin> set rest)"
proof -
  have t: "trace fresh_world = []" and f: "''../data/ring_10.pkl'' \<notin> dom (files fresh_world)"
    by (simp_all add: fresh_world_def)
  from normalized_rate[of "25 / 9" demo_engine "cycle_graph 10" "(cycle_graph 10, ''ring'')"
      "1 / 10" "''ring''" fresh_world 40 "''../data/ring_10.pkl''"] t f
  show ?thesis by simp
qed


text \<open>
  C1 does not hold of the code. The loop body calls \<^verbatim>\<open>simulate_simgle_request_rate\<close>,
  a name the module does not define (the function is \<^verbatim>\<open>simulate_single_request_rate\<close>).
  On the first sweep of the script, with no result file yet, the driver wraps the ring,
  computes its average shortest-path length and raises \<^verbatim>\<open>NameError\<close> at the first
  sweep value: no generator is created, the engine is never run, nothing is persisted.
\<close>

theorem ring10_sweep_raises_name_error:
  "simulate_different_request_rates demo_engine (cycle_graph 10) ''../data/ring_10.pkl'' ''ring''
       fresh_world =
     Inl (NameError ''simulate_simgle_request_rate'',
          fresh_world\<lparr>trace := [Wrap_network ''ring'', Avg_shortest_path]\<rparr>)"
proof -
  have "''../data/ring_10.pkl'' \<notin> dom (files fresh_world)" by (simp add: fresh_world_def)
  then show ?thesis
    by (simp add: driver_on_absent_path l_avg_ring10 emit_def fresh_world_def)
qed

text \<open>
  C4 does not hold of the code, for the same reason as C1: on no input does the driver
  write, change or remove a file, so the durable store never holds a first entry.
\<close>

theorem driver_never_writes:
  "files (outcome_world (simulate_different_request_rates ts G pickle_path network_type w)) = files w"
proof (cases "pickle_path \<in> dom (files w)")
  case True
  then show ?thesis by (simp add: driver_on_existing_path outcome_world_def)
next
  case False
  then show ?thesis
    by (simp add: driver_on_absent_path outcome_world_def split: sum.splits)
qed

text \<open>
  C10 does not hold of the code, for the same reason as C1: a sweep that is not
  skipped does not return \<^verbatim>\<open>None\<close>, it raises \<^verbatim>\<open>NameError\<close>. Here on the star with
  three leaves and a path that does not exist.
\<close>

theorem star_sweep_does_not_return:
  "map_sum fst fst (simulate_different_request_rates demo_engine (star_graph 3)
       ''../data/star_3.pkl'' ''star'' fresh_world) =
     Inl (NameError ''simulate_simgle_request_rate'')"
proof -
  have "''../data/star_3.pkl'' \<notin> dom (files fresh_world)" by (simp add: fresh_world_def)
  then show ?thesis by (simp add: driver_on_absent_path l_avg_star3)
qed

section \<open>Claims about the script\<close>

text \<open>
  C2, as amended. The script runs its statements in order and handles no exception:
  when a statement fails (a graph file that is missing, a sweep that raises), the
  exception is the outcome of the whole script, with the state as it is at that
  statement; what precedes has run, nothing that follows runs.
\<close>

theorem failure_ends_the_script:
  assumes "main_script = pre @ s # post"
    and "exec_all ts pre (initial_state w) = Inr st1"
    and "exec_stmt ts s st1 = Inl (e, st2)"
  shows "main ts w = Inl (e, st2)"
  unfolding main_def assms(1) by (rule script_failure[OF assms(2,3)])

theorem failure_ends_the_script_witness:
  "main_script =
     (synthetic_sweeps @ [Say (''doing G'' @ [CHR 0xC3, CHR 0xB6])])
       @ Read_gpickle ''../data/homogenized_networks/goe//G_homog.gpkl''
       # (tl (tl street_sweeps) @ concat (map coarse_berlin [(200, 400), (200, 600), (200, 800)])) \<and>
   exec_all demo_engine (synthetic_sweeps @ [Say (''doing G'' @ [CHR 0xC3, CHR 0xB6])])
       (initial_state goe_missing_world) =
     Inr \<lparr>world = goe_missing_world\<lparr>trace := goe_missing_trace\<rparr>,
          var_G = Some (triangular_lattice_graph 13 13), var_all_Gs = None\<rparr> \<and>
   exec_stmt demo_engine (Read_gpickle ''../data/homogenized_networks/goe//G_homog.gpkl'')
       \<lparr>world = goe_missing_world\<lparr>trace := goe_missing_trace\<rparr>,
        var_G = Some (triangular_lattice_graph 13 13), var_all_Gs = None\<rparr> =
     Inl (FileNotFoundError ''../data/homogenized_networks/goe//G_homog.gpkl'',
          \<lparr>world = goe_missing_world\<lparr>trace := goe_missing_trace\<rparr>,
           var_G = Some (triangular_lattice_graph 13 13), var_all_Gs = None\<rparr>) \<and>
   main demo_engine goe_missing_world =
     Inl (FileNotFoundError ''../data/homogenized_networks/goe//G_homog.gpkl'',
          \<lparr>world = goe_missing_world\<lparr>trace := goe_missing_trace\<rparr>,
           var_G = Some (triangular_lattice_graph 13 13), var_all_Gs = None\<rparr>)"
proof -
  have split: "main_script =
      (synthetic_sweeps @ [Say (''doing G'' @ [CHR 0xC3, CHR 0xB6])])
        @ Read_gpickle ''../data/homogenized_networks/goe//G_homog.gpkl''
        # (tl (tl street_sweeps) @ concat (map coarse_berlin [(200, 400), (200, 600), (200, 800)]))"
    by (simp add: main_script_def street_sweeps_def)
  have fail: "exec_stmt demo_engine (Read_gpickle ''../data/homogenized_networks/goe//G_homog.gpkl'')
       \<lparr>world = goe_missing_world\<lparr>trace := goe_missing_trace\<rparr>,
        var_G = Some (triangular_lattice_graph 13 13), var_all_Gs = None\<rparr> =
     Inl (FileNotFoundError ''../data/homogenized_networks/goe//G_homog.gpkl'',
          \<lparr>world = goe_missing_world\<lparr>trace := goe_missing_trace\<rparr>,
           var_G = Some (triangular_lattice_graph 13 13), var_all_Gs = None\<rparr>)"
    by (simp add: goe_missing_world_def fresh_world_def)
  from failure_ends_the_script[OF split goe_prefix fail] split goe_prefix fail
  show ?thesis by (intro conjI)
qed

text \<open>
  C2 as stated fails: in a world where the six generated topologies are done and the
  graph files of Harz and Berlin exist, the missing graph file of the first street
  network ends the script. Nothing is printed after the announcement of that network,
  and neither Harz nor Berlin is processed.
\<close>

theorem missing_graph_file_counterexample:
  "main demo_engine goe_missing_world =
     Inl (FileNotFoundError ''../data/homogenized_networks/goe//G_homog.gpkl'',
          \<lparr>world = goe_missing_world\<lparr>trace := goe_missing_trace\<rparr>,
           var_G = Some (triangular_lattice_graph 13 13), var_all_Gs = None\<rparr>)"
proof -
  have split: "main_script =
      (synthetic_sweeps @ [Say (''doing G'' @ [CHR 0xC3, CHR 0xB6])])
        @ Read_gpickle ''../data/homogenized_networks/goe//G_homog.gpkl''
        # (tl (tl street_sweeps) @ concat (map coarse_berlin [(200, 400), (200, 600), (200, 800)]))"
    by (simp add: main_script_def street_sweeps_def)
  show ?thesis
    unfolding main_def split
    by (rule script_failure[OF goe_prefix]) (simp add: goe_missing_world_def fresh_world_def)
qed

end
